theory Spec2Isabelle
  imports Main "HOL-Library.Sublist"
begin

section \<open>Strings and the library functions the spider calls\<close>

text \<open>
  A Python \<open>str\<close> is a sequence of Unicode code points; it is modelled as a list of
  natural numbers, so that \<open>length\<close>, slicing and \<open>in\<close> count what Python counts.
  The substring test \<open>a in b\<close> is \<^const>\<open>sublist\<close> \<open>a b\<close>.
\<close>

type_synonym ustr = "nat list"

text \<open>The string literals of \<open>film_spider.py\<close>, code point by code point.\<close>

definition ne_ukazano :: ustr where
  \<comment> \<open>the placeholder the spider stores for a field it could not find\<close>
  "ne_ukazano = [0x43D, 0x435, 0x20, 0x443, 0x43A, 0x430, 0x437, 0x430, 0x43D, 0x43E]"

definition kw_zhanr :: ustr where
  "kw_zhanr = [0x436, 0x430, 0x43D, 0x440]"

definition kw_rezhis :: ustr where
  "kw_rezhis = [0x440, 0x435, 0x436, 0x438, 0x441]"

definition kw_stra :: ustr where
  "kw_stra = [0x441, 0x442, 0x440, 0x430]"

definition kw_god :: ustr where
  "kw_god = [0x433, 0x43E, 0x434]"

definition kw_film :: ustr where
  "kw_film = [0x444, 0x438, 0x43B, 0x44C, 0x43C]"

definition kw_filmy :: ustr where
  "kw_filmy = [0x444, 0x438, 0x43B, 0x44C, 0x43C, 0x44B]"

definition wiki_sep :: ustr where
  \<comment> \<open>the separator \<open>/wiki/\<close>\<close>
  "wiki_sep = [0x2F, 0x77, 0x69, 0x6B, 0x69, 0x2F]"

text \<open>
  Functions of the Python standard library and of Scrapy whose tables are not part of the
  repository are parameters of the model: \<open>str.lower\<close>, the class \<open>\d\<close> of \<open>re\<close>
  on \<open>str\<close> patterns (the Unicode decimal digits), the percent-decoding that
  \<open>urllib.parse.unquote\<close> performs on a string that contains a percent sign
  (\<open>None\<close> stands for a raised exception, which the spider catches), and
  \<open>response.urljoin\<close>.
\<close>

record pylib =
  str_lower :: "ustr \<Rightarrow> ustr"
  re_digit :: "nat \<Rightarrow> bool"
  pct_decode :: "ustr \<Rightarrow> ustr option"
  urljoin :: "ustr \<Rightarrow> ustr \<Rightarrow> ustr"

definition is_space :: "nat \<Rightarrow> bool" where
  \<comment> \<open>the code points for which \<open>str.isspace\<close> holds; \<open>str.strip()\<close> removes them\<close>
  "is_space c \<longleftrightarrow>
     (9 \<le> c \<and> c \<le> 13) \<or> (28 \<le> c \<and> c \<le> 32) \<or> c = 0x85 \<or> c = 0xA0 \<or> c = 0x1680 \<or>
     (0x2000 \<le> c \<and> c \<le> 0x200A) \<or> c = 0x2028 \<or> c = 0x2029 \<or> c = 0x202F \<or>
     c = 0x205F \<or> c = 0x3000"

definition strip :: "ustr \<Rightarrow> ustr" where
  "strip s = rev (dropWhile is_space (rev (dropWhile is_space s)))"

fun join :: "ustr \<Rightarrow> ustr list \<Rightarrow> ustr" where
  "join sep [] = []"
| "join sep [x] = x"
| "join sep (x # y # ys) = x @ sep @ join sep (y # ys)"

text \<open>
  \<open>s.split('/wiki/')\<close>: the scan runs from the left and continues after each separator
  found. The separator is a non-empty constant, so the \<open>ValueError\<close> of an empty separator
  cannot arise; the result always has at least one element, so \<open>[-1]\<close> cannot fail.
\<close>

fun split_from :: "ustr \<Rightarrow> ustr \<Rightarrow> ustr \<Rightarrow> ustr list" where
  "split_from sep cur [] = [rev cur]"
| "split_from sep cur (c # cs) =
     (if prefix sep (c # cs) then rev cur # split_from sep [] (drop (length sep - 1) cs)
      else split_from sep (c # cur) cs)"

definition split_wiki :: "ustr \<Rightarrow> ustr list" where
  "split_wiki s = split_from wiki_sep [] s"

text \<open>\<open>re.search(r'(\d{4})', s)\<close>: the leftmost four consecutive digits, if any.\<close>

fun re_search_d4 :: "(nat \<Rightarrow> bool) \<Rightarrow> ustr \<Rightarrow> ustr option" where
  "re_search_d4 dg [] = None"
| "re_search_d4 dg (c # cs) =
     (if 4 \<le> length (c # cs) \<and> list_all dg (take 4 (c # cs)) then Some (take 4 (c # cs))
      else re_search_d4 dg cs)"

definition unquote :: "pylib \<Rightarrow> ustr \<Rightarrow> ustr option" where
  \<comment> \<open>\<open>urllib.parse.unquote\<close> returns a string without a percent sign as it is\<close>
  "unquote L s = (if 0x25 \<in> set s then pct_decode L s else Some s)"

definition sel_get :: "'a list \<Rightarrow> 'a option" where
  \<comment> \<open>\<open>SelectorList.get()\<close>: the first result, or \<open>None\<close>\<close>
  "sel_get xs = (case xs of [] \<Rightarrow> None | x # _ \<Rightarrow> Some x)"

definition truthy :: "ustr option \<Rightarrow> bool" where
  \<comment> \<open>Python's truth value of a string or \<open>None\<close>\<close>
  "truthy v = (case v of None \<Rightarrow> False | Some s \<Rightarrow> s \<noteq> [])"

section \<open>The fetched page\<close>

text \<open>
  The spider reads a page only through selector queries. A response is modelled by its
  URL and by the result of each query the source runs; no relation between the results
  is assumed, so a statement about every response covers every page.
\<close>

record infobox_row =
  th_texts :: "ustr list"  \<comment> \<open>\<open>row.xpath('./th//text()').getall()\<close>\<close>
  td_texts :: "ustr list"  \<comment> \<open>\<open>row.xpath('./td//text()').getall()\<close>\<close>

record response =
  url :: ustr
  heading_parts :: "ustr list"  \<comment> \<open>\<open>css('#firstHeading ::text').getall()\<close>\<close>
  infobox_tables :: nat
    \<comment> \<open>how many nodes \<open>//table[contains(@class,'infobox')]\<close> selects\<close>
  infobox_caption_texts :: "ustr list"
    \<comment> \<open>\<open>//table[contains(@class,'infobox')]//caption//text()\<close>\<close>
  infobox_rows :: "infobox_row list"
    \<comment> \<open>\<open>//table[contains(@class,'infobox')]//tr\<close>\<close>
  infobox_th_texts :: "ustr list"
    \<comment> \<open>\<open>//table[contains(@class,'infobox')]//tr/th//text()\<close>\<close>
  first_pars :: "ustr list"
    \<comment> \<open>\<open>//div[@class="mw-parser-output"]/p[not(@class) and normalize-space()]//text()\<close>\<close>
  catlinks :: "ustr list"  \<comment> \<open>\<open>css('div#mw-normal-catlinks a::text').getall()\<close>\<close>
  subcat_hrefs :: "ustr list"  \<comment> \<open>\<open>//div[@id="mw-subcategories"]//a/@href\<close>\<close>
  page_hrefs :: "ustr list"
    \<comment> \<open>\<open>//div[@id="mw-pages"]//div[contains(@class,"mw-category-group")]//a/@href\<close>\<close>
  next_text_hrefs :: "ustr list"
    \<comment> \<open>\<open>//a[contains(normalize-space(.),"...")]/@href\<close>, the links labelled as next page\<close>
  next_rel_hrefs :: "ustr list"  \<comment> \<open>\<open>//link[@rel="next"]/@href\<close>\<close>

section \<open>\<open>FilmsSpider.is_film_page\<close>\<close>

text \<open>
  The classifier is run with a log of the selector queries it evaluates, in order, so that
  what it reads before it returns is part of its result.
\<close>

datatype query = QInfobox | QCaption | QFirstPars | QFirstTh | QCatlinks

definition has_kw :: "pylib \<Rightarrow> ustr option \<Rightarrow> bool" where
  \<comment> \<open>\<open>x and 'kw' in x.lower()\<close> for the keyword of the classifier\<close>
  "has_kw L x = (case x of None \<Rightarrow> False | Some s \<Rightarrow> s \<noteq> [] \<and> sublist kw_film (str_lower L s))"

definition first_text_cls :: "pylib \<Rightarrow> response \<Rightarrow> ustr" where
  \<comment> \<open>\<open>' '.join(first_pars[:200]).lower() if first_pars else ''\<close>\<close>
  "first_text_cls L r =
     (if first_pars r \<noteq> [] then str_lower L (join [0x20] (take 200 (first_pars r))) else [])"

definition cats :: "pylib \<Rightarrow> response \<Rightarrow> ustr list" where
  "cats L r = map (\<lambda>c. str_lower L (strip c)) (catlinks r)"

definition is_film_page_run :: "pylib \<Rightarrow> response \<Rightarrow> bool \<times> query list" where
  "is_film_page_run L r =
     (let has_infobox = (infobox_tables r \<noteq> 0) in
      if \<not> has_infobox then (False, [QInfobox])
      else let caption = sel_get (infobox_caption_texts r) in
      if has_kw L caption then (True, [QInfobox, QCaption])
      else if sublist kw_film (first_text_cls L r) then (True, [QInfobox, QCaption, QFirstPars])
      else let first_th = sel_get (infobox_th_texts r) in
      if has_kw L first_th then (True, [QInfobox, QCaption, QFirstPars, QFirstTh])
      else if list_ex (\<lambda>c. sublist kw_film c \<or> sublist kw_filmy c) (cats L r)
        then (True, [QInfobox, QCaption, QFirstPars, QFirstTh, QCatlinks])
      else (False, [QInfobox, QCaption, QFirstPars, QFirstTh, QCatlinks]))"

definition is_film_page :: "pylib \<Rightarrow> response \<Rightarrow> bool" where
  "is_film_page L r = fst (is_film_page_run L r)"

section \<open>\<open>FilmsSpider.parse_article\<close>\<close>

datatype py_error = KeyError

text \<open>
  \<open>FilmItem\<close> is a \<open>dict\<close>: a map from key to value. Reading \<open>item[k]\<close> raises
  \<open>KeyError\<close> when the key is missing.
\<close>

type_synonym item = "string \<rightharpoonup> ustr"

definition getitem :: "item \<Rightarrow> string \<Rightarrow> py_error + ustr" where
  "getitem it k = (case it k of None \<Rightarrow> Inl KeyError | Some v \<Rightarrow> Inr v)"

definition heading_title :: "response \<Rightarrow> ustr" where
  \<comment> \<open>\<open>' '.join([p.strip() for p in heading_parts if p.strip()]).strip()\<close>\<close>
  "heading_title r = strip (join [0x20] [strip p. p \<leftarrow> heading_parts r, strip p \<noteq> []])"

definition url_title :: "pylib \<Rightarrow> response \<Rightarrow> ustr" where
  \<comment> \<open>the text after \<open>/wiki/\<close>, underscores replaced by spaces, then \<open>unquote\<close>;
      when \<open>unquote\<close> raises, the undecoded text\<close>
  "url_title L r =
     (let raw = last (split_wiki (url r));
          raw = map (\<lambda>c. if c = 0x5F then 0x20 else c) raw
      in case unquote L raw of Some t \<Rightarrow> t | None \<Rightarrow> raw)"

definition resolve_title :: "pylib \<Rightarrow> response \<Rightarrow> ustr" where
  "resolve_title L r =
     (let title = heading_title r;
          title = (if title = [] then url_title L r else title)
      in if title = [] then ne_ukazano else title)"

definition row_th :: "infobox_row \<Rightarrow> ustr" where
  \<comment> \<open>\<open>''.join(row.xpath('./th//text()').getall() or []).strip()\<close>\<close>
  "row_th row = strip (concat (th_texts row))"

definition row_td :: "infobox_row \<Rightarrow> ustr" where
  \<comment> \<open>the stripped, non-empty value cells joined with a comma and a space\<close>
  "row_td row =
     (let td_parts = [strip t. t \<leftarrow> td_texts row, strip t \<noteq> []]
      in if td_parts \<noteq> [] then strip (join [0x2C, 0x20] td_parts) else [])"

definition process_row :: "pylib \<Rightarrow> item \<Rightarrow> infobox_row \<Rightarrow> item" where
  \<comment> \<open>the body of the loop over the infobox rows\<close>
  "process_row L it row =
     (let th = row_th row; td = row_td row in
      if th = [] then it
      else let th_lower = str_lower L th in
      if sublist kw_zhanr th_lower then (if td \<noteq> [] then it(''genre'' \<mapsto> td) else it)
      else if sublist kw_rezhis th_lower then (if td \<noteq> [] then it(''director'' \<mapsto> td) else it)
      else if sublist kw_stra th_lower then (if td \<noteq> [] then it(''country'' \<mapsto> td) else it)
      else if sublist kw_god th_lower then
        (if td \<noteq> [] then
           (case re_search_d4 (re_digit L) td of
              Some m \<Rightarrow> it(''year'' \<mapsto> m)
            | None \<Rightarrow> it(''year'' \<mapsto> td))
         else it)
      else it)"

definition process_rows :: "pylib \<Rightarrow> item \<Rightarrow> infobox_row list \<Rightarrow> item" where
  "process_rows L it rows = foldl (process_row L) it rows"

definition initial_item :: "ustr \<Rightarrow> item" where
  "initial_item title =
     [''title'' \<mapsto> title, ''genre'' \<mapsto> ne_ukazano, ''director'' \<mapsto> ne_ukazano,
      ''country'' \<mapsto> ne_ukazano, ''year'' \<mapsto> ne_ukazano]"

definition first_text_year :: "response \<Rightarrow> ustr" where
  \<comment> \<open>\<open>' '.join([t.strip() for t in first_pars]).strip()\<close>\<close>
  "first_text_year r = strip (join [0x20] (map strip (first_pars r)))"

definition extract_fields :: "pylib \<Rightarrow> response \<Rightarrow> ustr \<Rightarrow> py_error + item" where
  \<comment> \<open>the part of \<open>parse_article\<close> after the classifier has accepted the page\<close>
  "extract_fields L r title =
     (let it = process_rows L (initial_item title) (infobox_rows r) in
      case getitem it ''year'' of
        Inl e \<Rightarrow> Inl e
      | Inr y \<Rightarrow>
          if y = ne_ukazano then
            (case re_search_d4 (re_digit L) (first_text_year r) of
               Some m \<Rightarrow> Inr (it(''year'' \<mapsto> m))
             | None \<Rightarrow> Inr it)
          else Inr it)"

definition parse_article :: "pylib \<Rightarrow> response \<Rightarrow> py_error + item option" where
  \<comment> \<open>\<open>Inr None\<close>: the page was skipped and nothing is yielded\<close>
  "parse_article L r =
     (let title = resolve_title L r in
      if \<not> is_film_page L r then Inr None
      else case extract_fields L r title of Inl e \<Rightarrow> Inl e | Inr it \<Rightarrow> Inr (Some it))"

section \<open>\<open>FilmsSpider.parse\<close>\<close>

datatype callback = CB_parse | CB_parse_article

datatype request = Request ustr callback

definition subcat_requests :: "pylib \<Rightarrow> response \<Rightarrow> request list" where
  "subcat_requests L r = map (\<lambda>href. Request (urljoin L (url r) href) CB_parse) (subcat_hrefs r)"

definition article_requests :: "pylib \<Rightarrow> response \<Rightarrow> request list" where
  \<comment> \<open>links whose text after \<open>/wiki/\<close> contains a colon are skipped\<close>
  "article_requests L r =
     [Request (urljoin L (url r) href) CB_parse_article.
        href \<leftarrow> page_hrefs r, 0x3A \<notin> set (last (split_wiki href))]"

definition next_page :: "response \<Rightarrow> ustr option" where
  "next_page r =
     (let np = sel_get (next_text_hrefs r)
      in if \<not> truthy np then sel_get (next_rel_hrefs r) else np)"

definition pagination_requests :: "pylib \<Rightarrow> response \<Rightarrow> request list" where
  \<comment> \<open>\<open>response.follow(next_page, callback=self.parse)\<close> when \<open>next_page\<close> is truthy\<close>
  "pagination_requests L r =
     (case next_page r of
        None \<Rightarrow> []
      | Some href \<Rightarrow> if href \<noteq> [] then [Request (urljoin L (url r) href) CB_parse] else [])"

definition parse :: "pylib \<Rightarrow> response \<Rightarrow> request list" where
  \<comment> \<open>the requests the generator yields, in order\<close>
  "parse L r = subcat_requests L r @ article_requests L r @ pagination_requests L r"

section \<open>A concrete library for evaluation\<close>

text \<open>
  To run the model on concrete pages, the library parameters are instantiated on the
  alphabet of the examples: ASCII and the Russian letters. On such strings
  \<open>lower0\<close> is \<open>str.lower\<close> and \<open>digit0\<close> is \<open>\d\<close>; \<open>urljoin0\<close> is \<open>urljoin\<close> for an absolute
  second argument; the percent-decoder is not reached on strings without a percent sign.
\<close>

definition lower_cp :: "nat \<Rightarrow> nat" where
  "lower_cp c =
     (if 0x41 \<le> c \<and> c \<le> 0x5A then c + 0x20
      else if 0x410 \<le> c \<and> c \<le> 0x42F then c + 0x20
      else if 0x400 \<le> c \<and> c \<le> 0x40F then c + 0x50
      else c)"

definition lib0 :: pylib where
  "lib0 = \<lparr> str_lower = map lower_cp,
            re_digit = (\<lambda>c. 0x30 \<le> c \<and> c \<le> 0x39),
            pct_decode = (\<lambda>s. Some s),
            urljoin = (\<lambda>base href. href) \<rparr>"

section \<open>Notions used to state the properties\<close>

text \<open>
  The field an infobox row is routed to: the first keyword, in the order of the
  \<open>if\<close>/\<open>elif\<close> chain,
    that the lower-cased label contains; \<open>None\<close> for a row
  without label text or without keyword.
\<close>

definition routes_to :: "pylib \<Rightarrow> infobox_row \<Rightarrow> string option" where
  "routes_to L row =
     (let th = row_th row in
      if th = [] then None
      else let th_lower = str_lower L th in
      if sublist kw_zhanr th_lower then Some ''genre''
      else if sublist kw_rezhis th_lower then Some ''director''
      else if sublist kw_stra th_lower then Some ''country''
      else if sublist kw_god th_lower then Some ''year''
      else None)"

definition year_value :: "pylib \<Rightarrow> ustr \<Rightarrow> ustr" where
  \<comment> \<open>what a row for the year stores: the four digits found,
    else the value itself\<close>
  "year_value L td = (case re_search_d4 (re_digit L) td of Some m \<Rightarrow> m | None \<Rightarrow> td)"

definition stored_value :: "pylib \<Rightarrow> string \<Rightarrow> ustr \<Rightarrow> ustr" where
  "stored_value L k td = (if k = ''year'' then year_value L td else td)"

definition digits4_at :: "(nat \<Rightarrow> bool) \<Rightarrow> ustr \<Rightarrow> nat \<Rightarrow> bool" where
  \<comment> \<open>four consecutive digits start at position \<open>i\<close> of \<open>s\<close>\<close>
  "digits4_at dg s i \<longleftrightarrow> i + 4 \<le> length s \<and> list_all dg (take 4 (drop i s))"

definition matching :: "pylib \<Rightarrow> string \<Rightarrow> infobox_row list \<Rightarrow> infobox_row list" where
  \<comment> \<open>the rows routed to field \<open>k\<close> whose joined value is not empty\<close>
  "matching L k rows = filter (\<lambda>row. routes_to L row = Some k \<and> row_td row \<noteq> []) rows"

definition occurs_ci :: "pylib \<Rightarrow> ustr \<Rightarrow> ustr \<Rightarrow> bool" where
  \<comment> \<open>the keyword occurs in the text, letter case ignored\<close>
  "occurs_ci L kw s \<longleftrightarrow> sublist kw (str_lower L s)"

definition lead_text :: "response \<Rightarrow> ustr" where
  \<comment> \<open>the first 200 text nodes of the paragraphs, joined by spaces\<close>
  "lead_text r = join [0x20] (take 200 (first_pars r))"

definition item_keys :: "string set" where
  "item_keys = {''title'', ''genre'', ''director'', ''country'', ''year''}"

definition populated :: "item \<Rightarrow> bool" where
  \<comment> \<open>exactly the five keys, none bound to the empty string\<close>
  "populated it \<longleftrightarrow> dom it = item_keys \<and> [] \<notin> ran it"

definition title_of :: "py_error + item option \<Rightarrow> ustr option" where
  \<comment> \<open>the title of the record \<open>parse_article\<close> yields,
    if it yields one\<close>
  "title_of res = (case res of Inr (Some it) \<Rightarrow> it ''title'' | _ \<Rightarrow> None)"

section \<open>Example pages\<close>

definition wiki_base :: ustr where
  \<comment> \<open>\<open>https://ru.wikipedia.org\<close>\<close>
  "wiki_base =
     [0x68, 0x74, 0x74, 0x70, 0x73, 0x3A, 0x2F, 0x2F, 0x72, 0x75, 0x2E, 0x77, 0x69, 0x6B,
       0x69, 0x70, 0x65, 0x64, 0x69, 0x61, 0x2E, 0x6F, 0x72, 0x67]"

definition row_genre :: infobox_row where
  "row_genre = \<lparr> th_texts = [[0x416, 0x430, 0x43D, 0x440]], td_texts = [[0x434, 0x440,
    0x430, 0x43C, 0x430]] \<rparr>"

definition row_genre2 :: infobox_row where
  "row_genre2 =
     \<lparr> th_texts = [[0x416, 0x430, 0x43D, 0x440]], td_texts = [[0x43A, 0x43E, 0x43C,
       0x435, 0x434, 0x438, 0x44F]] \<rparr>"

definition row_genre_blank :: infobox_row where
  \<comment> \<open>a genre row whose only value cell is white space\<close>
  "row_genre_blank = \<lparr> th_texts = [[0x416, 0x430, 0x43D, 0x440]], td_texts = [[0x20,
    0x0A]] \<rparr>"

definition row_director :: infobox_row where
  "row_director =
     \<lparr> th_texts = [[0x420, 0x435, 0x436, 0x438, 0x441, 0x441, 0x451, 0x440]],
       td_texts = [[0x410, 0x43B, 0x435, 0x43A, 0x441, 0x435, 0x439, 0x20, 0x411, 0x430,
         0x43B, 0x430, 0x431, 0x430, 0x43D, 0x43E, 0x432]] \<rparr>"

definition row_country :: infobox_row where
  "row_country =
     \<lparr> th_texts = [[0x421, 0x442, 0x440, 0x430, 0x43D, 0x430]], td_texts = [[0x420,
       0x43E, 0x441, 0x441, 0x438, 0x44F]] \<rparr>"

definition row_year :: infobox_row where
  "row_year = \<lparr> th_texts = [[0x413, 0x43E, 0x434]], td_texts = [[0x31, 0x39, 0x39,
    0x37]] \<rparr>"

definition row_year_1999 :: infobox_row where
  "row_year_1999 = \<lparr> th_texts = [[0x413, 0x43E, 0x434]], td_texts = [[0x31, 0x39,
    0x39, 0x39]] \<rparr>"

definition row_year_2015 :: infobox_row where
  \<comment> \<open>label \<open>God\<close>, value \<open>2015 god\<close>\<close>
  "row_year_2015 =
     \<lparr> th_texts = [[0x413, 0x43E, 0x434]], td_texts = [[0x32, 0x30, 0x31, 0x35, 0x20,
       0x433, 0x43E, 0x434]] \<rparr>"

definition row_year_nodata :: infobox_row where
  \<comment> \<open>label \<open>God\<close>, value \<open>net dannykh\<close>\<close>
  "row_year_nodata =
     \<lparr> th_texts = [[0x413, 0x43E, 0x434]],
       td_texts = [[0x43D, 0x435, 0x442, 0x20, 0x434, 0x430, 0x43D, 0x43D, 0x44B,
         0x445]] \<rparr>"

definition row_no_label :: infobox_row where
  \<comment> \<open>a row whose header cell holds white space only\<close>
  "row_no_label = \<lparr> th_texts = [[0x20], [0x0A]], td_texts = [[0x434, 0x440, 0x430,
    0x43C, 0x430]] \<rparr>"

definition page_film :: response where
  \<comment> \<open>an article on a film, with heading, infobox and category links\<close>
  "page_film =
     \<lparr> url = wiki_base @ wiki_sep @ [0x411, 0x440, 0x430, 0x442],
       heading_parts = [[0x411, 0x440, 0x430, 0x442]],
       infobox_tables = 1,
       infobox_caption_texts = [],
       infobox_rows = [row_genre, row_director, row_country, row_year],
       infobox_th_texts =
         [[0x416, 0x430, 0x43D, 0x440], [0x420, 0x435, 0x436, 0x438, 0x441, 0x441, 0x451,
           0x440], [0x421, 0x442, 0x440, 0x430, 0x43D, 0x430], [0x413, 0x43E, 0x434]],
       first_pars =
         [[0x420, 0x43E, 0x441, 0x441, 0x438, 0x439, 0x441, 0x43A, 0x438, 0x439, 0x20, 0x444,
           0x438, 0x43B, 0x44C, 0x43C, 0x20, 0x31, 0x39, 0x39, 0x37, 0x20, 0x433, 0x43E,
             0x434, 0x430, 0x2E]],
       catlinks =
         [[0x424, 0x438, 0x43B, 0x44C, 0x43C, 0x44B, 0x20, 0x31, 0x39, 0x39, 0x37, 0x20,
           0x433, 0x43E, 0x434, 0x430]],
       subcat_hrefs = [], page_hrefs = [], next_text_hrefs = [], next_rel_hrefs = [] \<rparr>"

definition page_no_heading :: response where
  \<comment> \<open>the same article without heading text, fetched from
    \<open>https://ru.wikipedia.org/wiki/Inception_(film)\<close>\<close>
  "page_no_heading =
     page_film
       \<lparr> url := wiki_base @ wiki_sep @
           [0x49, 0x6E, 0x63, 0x65, 0x70, 0x74, 0x69, 0x6F, 0x6E, 0x5F, 0x28, 0x66, 0x69, 0x6C,
            0x6D, 0x29],
         heading_parts := [] \<rparr>"

definition page_no_title :: response where
  \<comment> \<open>the same article without heading text,
    fetched from a URL that ends in \<open>/wiki/\<close>\<close>
  "page_no_title = page_film \<lparr> url := wiki_base @ wiki_sep, heading_parts := [] \<rparr>"

definition page_person :: response where
  \<comment> \<open>an article with an infobox and no film keyword anywhere\<close>
  "page_person =
     \<lparr> url = wiki_base @ wiki_sep @ [0x41F, 0x443, 0x448, 0x43A, 0x438, 0x43D],
       heading_parts = [[0x41F, 0x443, 0x448, 0x43A, 0x438, 0x43D]],
       infobox_tables = 1,
       infobox_caption_texts = [[0x41F, 0x443, 0x448, 0x43A, 0x438, 0x43D]],
       infobox_rows = [row_country],
       infobox_th_texts = [[0x421, 0x442, 0x440, 0x430, 0x43D, 0x430]],
       first_pars =
         [[0x420, 0x443, 0x441, 0x441, 0x43A, 0x438, 0x439, 0x20, 0x43F, 0x43E, 0x44D, 0x442,
           0x2E]],
       catlinks =
         [[0x41F, 0x43E, 0x44D, 0x442, 0x44B, 0x20, 0x420, 0x43E, 0x441, 0x441, 0x438, 0x438]],
       subcat_hrefs = [], page_hrefs = [], next_text_hrefs = [], next_rel_hrefs = [] \<rparr>"









definition page_no_infobox :: response where
  \<comment> \<open>an article without infobox whose text and categories name the keyword\<close>
  "page_no_infobox =
     \<lparr> url = wiki_base @ wiki_sep @ [0x41A, 0x438, 0x43D, 0x43E],
       heading_parts = [[0x41A, 0x438, 0x43D, 0x43E]],
       infobox_tables = 0,
       infobox_caption_texts = [],
       infobox_rows = [],
       infobox_th_texts = [],
       first_pars =
         [[0x421, 0x43E, 0x432, 0x435, 0x442, 0x441, 0x43A, 0x438, 0x439, 0x20, 0x444, 0x438,
           0x43B, 0x44C, 0x43C, 0x2E]],
       catlinks =
         [[0x424, 0x438, 0x43B, 0x44C, 0x43C, 0x44B, 0x20, 0x31, 0x39, 0x39, 0x37, 0x20,
           0x433, 0x43E, 0x434, 0x430]],
       subcat_hrefs = [], page_hrefs = [], next_text_hrefs = [], next_rel_hrefs = [] \<rparr>"

definition href_next_b :: ustr where
  \<comment> \<open>\<open>https://ru.wikipedia.org/w/index.php?from=B\<close>\<close>
  "href_next_b = wiki_base @
     [0x2F, 0x77, 0x2F, 0x69, 0x6E, 0x64, 0x65, 0x78, 0x2E, 0x70, 0x68, 0x70, 0x3F, 0x66,
       0x72, 0x6F, 0x6D, 0x3D, 0x42]"

definition href_next_c :: ustr where
  \<comment> \<open>\<open>https://ru.wikipedia.org/w/index.php?from=C\<close>\<close>
  "href_next_c = wiki_base @
     [0x2F, 0x77, 0x2F, 0x69, 0x6E, 0x64, 0x65, 0x78, 0x2E, 0x70, 0x68, 0x70, 0x3F, 0x66,
       0x72, 0x6F, 0x6D, 0x3D, 0x43]"

definition page_category :: response where
  \<comment> \<open>a category page with one article link,
    a next-page link and a \<open>rel=next\<close> link\<close>
  "page_category =
     \<lparr> url = wiki_base @ wiki_sep @
         [0x41A, 0x430, 0x442, 0x435, 0x433, 0x43E, 0x440, 0x438, 0x44F, 0x3A, 0x424, 0x438,
           0x43B, 0x44C, 0x43C, 0x44B],
       heading_parts = [], infobox_tables = 0, infobox_caption_texts = [],
       infobox_rows = [], infobox_th_texts = [], first_pars = [], catlinks = [],
       subcat_hrefs = [],
       page_hrefs = [wiki_base @ wiki_sep @ [0x411, 0x440, 0x430, 0x442]],
       next_text_hrefs = [href_next_b],
       next_rel_hrefs = [href_next_c] \<rparr>"

definition page_category_rel :: response where
  \<comment> \<open>the same category page without the next-page link in the text\<close>
  "page_category_rel = page_category \<lparr> next_text_hrefs := [] \<rparr>"

definition page_category_last :: response where
  \<comment> \<open>the same category page with neither link\<close>
  "page_category_last = page_category \<lparr> next_text_hrefs := [],
    next_rel_hrefs := [] \<rparr>"

section \<open>Evaluation and basic facts\<close>

lemmas str_eval = strip_def is_space_def sublist_code(3) lower_cp_def lib0_def
  kw_zhanr_def kw_rezhis_def kw_stra_def kw_god_def kw_film_def kw_filmy_def ne_ukazano_def

lemma process_row_empty_td: "row_td row = [] \<Longrightarrow> process_row L it row = it"
  by (simp add: process_row_def Let_def)

lemma process_rows_snoc:
  "process_rows L it (rows @ [row]) = process_row L (process_rows L it rows) row"
  by (simp add: process_rows_def)

lemma process_row_routes:
  "process_row L it row =
     (case routes_to L row of
        None \<Rightarrow> it
      | Some k \<Rightarrow> if row_td row = [] then it else it(k \<mapsto> stored_value L k (row_td row)))"
  by (simp add: process_row_def routes_to_def stored_value_def year_value_def Let_def
      split: option.splits)

lemma row_no_label_th: "row_th row_no_label = []"
  by (simp add: row_th_def row_no_label_def str_eval)

lemma row_no_label_td: "row_td row_no_label = [0x434, 0x440, 0x430, 0x43C, 0x430]"
  by (simp add: row_td_def row_no_label_def str_eval)

lemma row_genre_blank_td: "row_td row_genre_blank = []"
  by (simp add: row_td_def row_genre_blank_def str_eval)

lemma genre_after_row_genre:
  "process_rows lib0 (initial_item [0x411]) [row_genre] ''genre''
     = Some [0x434, 0x440, 0x430, 0x43C, 0x430]"
  by (simp add: process_rows_def process_row_def row_td_def row_th_def row_genre_def
      initial_item_def str_eval)

lemma filmy_film: "sublist kw_filmy s \<Longrightarrow> sublist kw_film s"
proof -
  assume "sublist kw_filmy s"
  moreover have "sublist kw_film kw_filmy"
    unfolding sublist_def kw_film_def kw_filmy_def
    by (rule exI[of _ "[]"], rule exI[of _ "[0x44B]"]) simp
  ultimately show ?thesis using sublist_order.order_trans by blast
qed

section \<open>Rows without label, rows without value\<close>

text \<open>
  Claim C9. An infobox row whose header-cell text, joined and stripped, is the empty string
  is skipped: the item after the row is the item before it, whatever the value cells hold,
  so none of genre, director, country and year is modified.
\<close>

theorem unlabelled_row_skipped: "row_th row = [] \<Longrightarrow> process_row L it row = it"
  by (simp add: process_row_def)

theorem unlabelled_row_skipped_witness:
  "row_th row_no_label = [] \<and> row_td row_no_label \<noteq> [] \<and>
   process_row lib0 (initial_item [0x411]) row_no_label = initial_item [0x411]"
  using unlabelled_row_skipped [of row_no_label lib0 "initial_item [0x411]"]
    row_no_label_th row_no_label_td
  by simp

text \<open>
  Claim C3. Monotonic upgrade during infobox processing: whatever rows came before, a row
  whose joined value is empty leaves the item as the earlier rows made it, so a field an
  earlier row has set keeps its value; it is not reset to the placeholder or to the empty
  string. Such a row can be dropped from the sequence without changing the result.
\<close>

theorem empty_value_keeps_item:
  assumes "row_td row = []"
  shows "process_row L (process_rows L it pre) row = process_rows L it pre \<and>
         process_rows L it (pre @ row # post) = process_rows L it (pre @ post)"
  using assms by (simp add: process_rows_def process_row_empty_td)

theorem empty_value_keeps_item_witness:
  "row_td row_genre_blank = [] \<and>
   routes_to lib0 row_genre_blank = Some ''genre'' \<and>
   process_rows lib0 (initial_item [0x411]) ([row_genre] @ row_genre_blank # []) ''genre''
     = Some [0x434, 0x440, 0x430, 0x43C, 0x430]"
proof -
  have td: "row_td row_genre_blank = []" by (rule row_genre_blank_td)
  have rt: "routes_to lib0 row_genre_blank = Some ''genre''"
    by (simp add: routes_to_def row_th_def row_genre_blank_def str_eval)
  from empty_value_keeps_item [OF td, of lib0 "initial_item [0x411]" "[row_genre]" "[]"]
  have "process_rows lib0 (initial_item [0x411]) ([row_genre] @ row_genre_blank # [])
          = process_rows lib0 (initial_item [0x411]) ([row_genre] @ [])" by simp
  then show ?thesis using td rt genre_after_row_genre by simp
qed

section \<open>The classifier\<close>

text \<open>
  Claim C5. Hard gate: for a page on which the infobox query selects nothing, the classifier
  returns negative, and the only query it has evaluated is the one for the infobox: the
  caption, the lead text, the first label and the category links are not read.
\<close>

theorem no_infobox_immediate_negative:
  "infobox_tables r = 0 \<Longrightarrow>
   is_film_page_run L r = (False, [QInfobox]) \<and> is_film_page L r = False"
  by (simp add: is_film_page_run_def is_film_page_def)

theorem no_infobox_immediate_negative_witness:
  "infobox_tables page_no_infobox = 0 \<and>
   occurs_ci lib0 kw_film (lead_text page_no_infobox) \<and>
   is_film_page_run lib0 page_no_infobox = (False, [QInfobox])"
proof -
  have h: "infobox_tables page_no_infobox = 0" by (simp add: page_no_infobox_def)
  have o: "occurs_ci lib0 kw_film (lead_text page_no_infobox)"
    by (simp add: occurs_ci_def lead_text_def page_no_infobox_def str_eval)
  from no_infobox_immediate_negative [OF h, of lib0] h o show ?thesis by simp
qed


text \<open>
  What the classifier does guarantee is stated on the texts it reads: a page with an
  infobox is classified negative when the keyword occurs, letter case ignored, in no text
  node of the infobox caption, not in the first 200 text nodes of all the paragraphs joined
  by spaces, not in the first header text found in any infobox row and in no category link
  text.
\<close>

lemma negative_when_no_test_matches:
  assumes "infobox_tables r \<noteq> 0"
    and "\<forall>c \<in> set (infobox_caption_texts r). \<not> occurs_ci L kw_film c"
    and "\<not> occurs_ci L kw_film (lead_text r)"
    and "\<forall>c \<in> set (take 1 (infobox_th_texts r)). \<not> occurs_ci L kw_film c"
    and "\<forall>c \<in> set (catlinks r). \<not> occurs_ci L kw_film (strip c)"
  shows "is_film_page L r = False"
proof -
  have cap: "\<not> has_kw L (sel_get (infobox_caption_texts r))"
    using assms(2)
    by (cases "infobox_caption_texts r") (simp_all add: has_kw_def sel_get_def occurs_ci_def)
  have th: "\<not> has_kw L (sel_get (infobox_th_texts r))"
    using assms(4)
    by (cases "infobox_th_texts r") (simp_all add: has_kw_def sel_get_def occurs_ci_def)
  have lead: "\<not> sublist kw_film (first_text_cls L r)"
    using assms(3) by (simp add: first_text_cls_def lead_text_def occurs_ci_def kw_film_def)
  have cat: "\<not> list_ex (\<lambda>c. sublist kw_film c \<or> sublist kw_filmy c) (cats L r)"
    using assms(5) filmy_film by (auto simp add: cats_def list_ex_iff occurs_ci_def)
  from assms(1) cap th lead cat show ?thesis
    by (simp add: is_film_page_def is_film_page_run_def Let_def)
qed

lemma page_person_negative:
  "infobox_tables page_person \<noteq> 0 \<and> is_film_page lib0 page_person = False"
proof -
  have h1: "infobox_tables page_person \<noteq> 0" by (simp add: page_person_def)
  have h2: "\<forall>c \<in> set (infobox_caption_texts page_person). \<not> occurs_ci lib0 kw_film c"
    by (simp add: occurs_ci_def page_person_def str_eval)
  have h3: "\<not> occurs_ci lib0 kw_film (lead_text page_person)"
    by (simp add: occurs_ci_def lead_text_def page_person_def str_eval)
  have h4: "\<forall>c \<in> set (take 1 (infobox_th_texts page_person)). \<not> occurs_ci lib0 kw_film c"
    by (simp add: occurs_ci_def page_person_def str_eval)
  have h5: "\<forall>c \<in> set (catlinks page_person). \<not> occurs_ci lib0 kw_film (strip c)"
    by (simp add: occurs_ci_def page_person_def str_eval)
  from negative_when_no_test_matches [OF h1 h2 h3 h4 h5] h1 show ?thesis by simp
qed

section \<open>The year of a row\<close>

lemma digits4_at_0:
  "digits4_at dg (c # cs) 0 \<longleftrightarrow> 4 \<le> length (c # cs) \<and> list_all dg (take 4 (c # cs))"
  by (simp add: digits4_at_def)

lemma digits4_at_Suc: "digits4_at dg (c # cs) (Suc i) \<longleftrightarrow> digits4_at dg cs i"
  by (auto simp add: digits4_at_def)

lemma digits4_at_Nil: "\<not> digits4_at dg [] i"
  by (simp add: digits4_at_def)

lemma re_search_d4_first:
  "digits4_at dg s i \<Longrightarrow> (\<forall>j<i. \<not> digits4_at dg s j) \<Longrightarrow>
   re_search_d4 dg s = Some (take 4 (drop i s))"
proof (induction s arbitrary: i)
  case Nil
  then show ?case by (simp add: digits4_at_Nil)
next
  case (Cons c cs)
  show ?case
  proof (cases i)
    case 0
    with Cons.prems(1) show ?thesis by (simp add: digits4_at_0)
  next
    case (Suc i')
    with Cons.prems have "\<not> digits4_at dg (c # cs) 0" by blast
    then have here: "\<not> (4 \<le> length (c # cs) \<and> list_all dg (take 4 (c # cs)))"
      unfolding digits4_at_0 .
    from Suc Cons.prems have at: "digits4_at dg cs i'" by (simp add: digits4_at_Suc)
    have "\<forall>j<i'. \<not> digits4_at dg cs j"
    proof (intro allI impI)
      fix j assume "j < i'"
      then have "Suc j < i" using Suc by simp
      with Cons.prems(2) have "\<not> digits4_at dg (c # cs) (Suc j)" by blast
      then show "\<not> digits4_at dg cs j" by (simp add: digits4_at_Suc)
    qed
    with at have rest: "re_search_d4 dg cs = Some (take 4 (drop i' cs))" by (rule Cons.IH)
    from here have "re_search_d4 dg (c # cs) = re_search_d4 dg cs" by auto
    with rest Suc show ?thesis by simp
  qed
qed

lemma re_search_d4_none: "(\<forall>i. \<not> digits4_at dg s i) \<Longrightarrow> re_search_d4 dg s = None"
proof (induction s)
  case Nil
  then show ?case by simp
next
  case (Cons c cs)
  have "\<not> digits4_at dg (c # cs) 0" using Cons.prems by blast
  then have here: "\<not> (4 \<le> length (c # cs) \<and> list_all dg (take 4 (c # cs)))"
    unfolding digits4_at_0 .
  have "\<forall>i. \<not> digits4_at dg cs i"
    using Cons.prems digits4_at_Suc by blast
  then have rest: "re_search_d4 dg cs = None" by (rule Cons.IH)
  from here have "re_search_d4 dg (c # cs) = re_search_d4 dg cs" by auto
  with rest show ?case by simp
qed

lemma re_search_d4_length: "re_search_d4 dg s = Some m \<Longrightarrow> length m = 4"
  by (induction s) (auto split: if_splits)

lemma digits4_at_ex: "digits4_at dg s i \<Longrightarrow> list_ex dg s"
proof -
  assume a: "digits4_at dg s i"
  then have "take 4 (drop i s) \<noteq> []" by (auto simp add: digits4_at_def)
  then obtain c where c: "c \<in> set (take 4 (drop i s))" by (cases "take 4 (drop i s)") auto
  with a have "dg c" by (auto simp add: digits4_at_def list_all_iff)
  moreover from c have "c \<in> set s" by (meson in_set_takeD in_set_dropD)
  ultimately show ?thesis by (auto simp add: list_ex_iff)
qed

text \<open>
  Claim C6. Year normalization: a row routed to the year field whose joined value is not
  empty sets the year to the leftmost four consecutive digits of the value when the value
  contains four consecutive digits, and to the value itself otherwise. In particular the
  value \<open>2015 god\<close> gives the year \<open>2015\<close>,
    and the value \<open>net dannykh\<close>,
  which has no digit, is kept as it is (both written in Cyrillic in the source).
\<close>

theorem year_normalization:
  assumes "routes_to L row = Some ''year''" and "row_td row \<noteq> []"
  shows "(\<forall>i. digits4_at (re_digit L) (row_td row) i \<and>
              (\<forall>j<i. \<not> digits4_at (re_digit L) (row_td row) j) \<longrightarrow>
              process_row L it row = it(''year'' \<mapsto> take 4 (drop i (row_td row))))
       \<and> ((\<forall>i. \<not> digits4_at (re_digit L) (row_td row) i) \<longrightarrow>
              process_row L it row = it(''year'' \<mapsto> row_td row))
       \<and> (row_td row = [0x32, 0x30, 0x31, 0x35, 0x20, 0x433, 0x43E, 0x434] \<and>
            list_all (re_digit L) [0x32, 0x30, 0x31, 0x35] \<longrightarrow>
              process_row L it row = it(''year'' \<mapsto> [0x32, 0x30, 0x31, 0x35]))
       \<and> (row_td row = [0x43D, 0x435, 0x442, 0x20, 0x434, 0x430, 0x43D, 0x43D, 0x44B,
         0x445] \<and>
            \<not> list_ex (re_digit L) [0x43D, 0x435, 0x442, 0x20, 0x434, 0x430, 0x43D,
              0x43D, 0x44B, 0x445] \<longrightarrow>
              process_row L it row = it(''year'' \<mapsto> [0x43D, 0x435, 0x442, 0x20, 0x434,
                0x430, 0x43D, 0x43D, 0x44B, 0x445]))"
proof (intro conjI allI impI)
  fix i
  assume "digits4_at (re_digit L) (row_td row) i \<and>
          (\<forall>j<i. \<not> digits4_at (re_digit L) (row_td row) j)"
  then have "re_search_d4 (re_digit L) (row_td row) = Some (take 4 (drop i (row_td row)))"
    using re_search_d4_first by blast
  then show "process_row L it row = it(''year'' \<mapsto> take 4 (drop i (row_td row)))"
    using assms by (simp add: process_row_routes stored_value_def year_value_def)
next
  assume "\<forall>i. \<not> digits4_at (re_digit L) (row_td row) i"
  then show "process_row L it row = it(''year'' \<mapsto> row_td row)"
    using assms
    by (simp add: process_row_routes stored_value_def year_value_def re_search_d4_none)
next
  assume a: "row_td row = [0x32, 0x30, 0x31, 0x35, 0x20, 0x433, 0x43E, 0x434] \<and>
             list_all (re_digit L) [0x32, 0x30, 0x31, 0x35]"
  then have "re_search_d4 (re_digit L) (row_td row) = Some [0x32, 0x30, 0x31, 0x35]"
    by simp
  then show "process_row L it row = it(''year'' \<mapsto> [0x32, 0x30, 0x31, 0x35])"
    using assms by (simp add: process_row_routes stored_value_def year_value_def)
next
  assume a: "row_td row = [0x43D, 0x435, 0x442, 0x20, 0x434, 0x430, 0x43D, 0x43D, 0x44B,
    0x445] \<and>
             \<not> list_ex (re_digit L) [0x43D, 0x435, 0x442, 0x20, 0x434, 0x430, 0x43D,
               0x43D, 0x44B, 0x445]"
  then have "\<forall>i. \<not> digits4_at (re_digit L) (row_td row) i"
    using digits4_at_ex [of "re_digit L" "row_td row"] by auto
  then have "re_search_d4 (re_digit L) (row_td row) = None" by (rule re_search_d4_none)
  then show "process_row L it row = it(''year'' \<mapsto> [0x43D, 0x435, 0x442, 0x20, 0x434,
    0x430, 0x43D, 0x43D, 0x44B, 0x445])"
    using assms a by (simp add: process_row_routes stored_value_def year_value_def)
qed

lemma row_year_2015_td: "row_td row_year_2015 = [0x32, 0x30, 0x31, 0x35, 0x20, 0x433, 0x43E,
  0x434]"
  by (simp add: row_td_def row_year_2015_def str_eval)

lemma row_year_2015_route: "routes_to lib0 row_year_2015 = Some ''year''"
  by (simp add: routes_to_def row_th_def row_year_2015_def str_eval)

lemma row_year_nodata_td: "row_td row_year_nodata = [0x43D, 0x435, 0x442, 0x20, 0x434, 0x430,
  0x43D, 0x43D, 0x44B, 0x445]"
  by (simp add: row_td_def row_year_nodata_def str_eval)

lemma row_year_nodata_route: "routes_to lib0 row_year_nodata = Some ''year''"
  by (simp add: routes_to_def row_th_def row_year_nodata_def str_eval)

theorem year_normalization_witness:
  "routes_to lib0 row_year_2015 = Some ''year'' \<and>
   row_td row_year_2015 = [0x32, 0x30, 0x31, 0x35, 0x20, 0x433, 0x43E, 0x434] \<and>
   process_row lib0 (initial_item [0x411]) row_year_2015 ''year'' = Some [0x32, 0x30, 0x31,
     0x35] \<and>
   routes_to lib0 row_year_nodata = Some ''year'' \<and>
   row_td row_year_nodata = [0x43D, 0x435, 0x442, 0x20, 0x434, 0x430, 0x43D, 0x43D, 0x44B,
     0x445] \<and>
   process_row lib0 (initial_item [0x411]) row_year_nodata ''year'' = Some [0x43D, 0x435,
     0x442, 0x20, 0x434, 0x430, 0x43D, 0x43D, 0x44B, 0x445]"
proof -
  have ne1: "row_td row_year_2015 \<noteq> []" by (simp add: row_year_2015_td)
  have ne2: "row_td row_year_nodata \<noteq> []" by (simp add: row_year_nodata_td)
  have d1: "list_all (re_digit lib0) [0x32, 0x30, 0x31, 0x35]" by (simp add: lib0_def)
  have d2: "\<not> list_ex (re_digit lib0) [0x43D, 0x435, 0x442, 0x20, 0x434, 0x430, 0x43D,
    0x43D, 0x44B, 0x445]"
    by (simp add: lib0_def)
  from year_normalization [OF row_year_2015_route ne1, of "initial_item [0x411]"]
    row_year_2015_td d1
  have "process_row lib0 (initial_item [0x411]) row_year_2015
          = (initial_item [0x411])(''year'' \<mapsto> [0x32, 0x30, 0x31, 0x35])" by blast
  moreover
  from year_normalization [OF row_year_nodata_route ne2, of "initial_item [0x411]"]
    row_year_nodata_td d2
  have "process_row lib0 (initial_item [0x411]) row_year_nodata
          = (initial_item [0x411])(''year'' \<mapsto> [0x43D, 0x435, 0x442, 0x20, 0x434,
            0x430, 0x43D, 0x43D, 0x44B, 0x445])" by blast
  ultimately show ?thesis
    using row_year_2015_route row_year_2015_td row_year_nodata_route row_year_nodata_td
    by simp
qed

section \<open>Several rows for one field\<close>

text \<open>
  Claim C10, as amended. The last row with a value wins: after the infobox rows are
  processed, a field that no row with a non-empty joined value is routed to is as it was
  before, and any other field holds what the last such row stores: for genre, director and
  country the joined value of that row, for year the normalized form of that value (its
  leftmost four consecutive digits if it has any, else the value itself).
\<close>

theorem last_match_stored:
  "process_rows L it rows k =
     (if matching L k rows = [] then it k
      else if k = ''year'' then Some (year_value L (row_td (last (matching L k rows))))
      else Some (row_td (last (matching L k rows))))"
proof (induction rows rule: rev_induct)
  case Nil
  then show ?case by (simp add: matching_def process_rows_def)
next
  case (snoc row rows)
  show ?case
  proof (cases "routes_to L row = Some k \<and> row_td row \<noteq> []")
    case True
    then show ?thesis
      by (simp add: process_rows_snoc process_row_routes matching_def stored_value_def)
  next
    case False
    then have m: "matching L k (rows @ [row]) = matching L k rows"
      by (simp add: matching_def)
    from False have "process_row L (process_rows L it rows) row k = process_rows L it rows k"
      by (auto simp add: process_row_routes split: option.splits)
    then have eq: "process_rows L it (rows @ [row]) k = process_rows L it rows k"
      by (simp add: process_rows_snoc)
    show ?thesis unfolding eq m by (rule snoc.IH)
  qed
qed

lemma row_genre_td: "row_td row_genre = [0x434, 0x440, 0x430, 0x43C, 0x430]"
  by (simp add: row_td_def row_genre_def str_eval)

lemma row_genre_route: "routes_to lib0 row_genre = Some ''genre''"
  by (simp add: routes_to_def row_th_def row_genre_def str_eval)

lemma row_genre2_td: "row_td row_genre2 = [0x43A, 0x43E, 0x43C, 0x435, 0x434, 0x438, 0x44F]"
  by (simp add: row_td_def row_genre2_def str_eval)

lemma row_genre2_route: "routes_to lib0 row_genre2 = Some ''genre''"
  by (simp add: routes_to_def row_th_def row_genre2_def str_eval)

lemma row_year_1999_td: "row_td row_year_1999 = [0x31, 0x39, 0x39, 0x39]"
  by (simp add: row_td_def row_year_1999_def str_eval)

lemma row_year_1999_route: "routes_to lib0 row_year_1999 = Some ''year''"
  by (simp add: routes_to_def row_th_def row_year_1999_def str_eval)

lemma year_value_2015: "year_value lib0 [0x32, 0x30, 0x31, 0x35, 0x20, 0x433, 0x43E,
  0x434] = [0x32, 0x30, 0x31, 0x35]"
  by (simp add: year_value_def lib0_def)

theorem last_match_stored_witness:
  "matching lib0 ''genre'' [row_genre, row_genre2, row_genre_blank] = [row_genre,
    row_genre2] \<and>
   process_rows lib0 (initial_item [0x411]) [row_genre, row_genre2, row_genre_blank] ''genre''
     = Some [0x43A, 0x43E, 0x43C, 0x435, 0x434, 0x438, 0x44F] \<and>
   matching lib0 ''year'' [row_year_1999, row_year_2015] = [row_year_1999, row_year_2015] \<and>
   process_rows lib0 (initial_item [0x411]) [row_year_1999, row_year_2015] ''year''
     = Some [0x32, 0x30, 0x31, 0x35]"
proof -
  have m1: "matching lib0 ''genre'' [row_genre, row_genre2, row_genre_blank]
              = [row_genre, row_genre2]"
    by (simp add: matching_def row_genre_td row_genre_route row_genre2_td row_genre2_route
        row_genre_blank_td)
  have m2: "matching lib0 ''year'' [row_year_1999, row_year_2015]
              = [row_year_1999, row_year_2015]"
    by (simp add: matching_def row_year_1999_td row_year_1999_route row_year_2015_td
        row_year_2015_route)
  from last_match_stored [of lib0 "initial_item [0x411]"
      "[row_genre, row_genre2, row_genre_blank]" "''genre''"] m1
  have g: "process_rows lib0 (initial_item [0x411]) [row_genre, row_genre2, row_genre_blank]
             ''genre'' = Some [0x43A, 0x43E, 0x43C, 0x435, 0x434, 0x438, 0x44F]"
    by (simp add: row_genre2_td)
  from last_match_stored [of lib0 "initial_item [0x411]"
      "[row_year_1999, row_year_2015]" "''year''"] m2
  have "process_rows lib0 (initial_item [0x411]) [row_year_1999, row_year_2015] ''year''
          = Some [0x32, 0x30, 0x31, 0x35]"
    by (simp add: row_year_2015_td year_value_2015)
  with m1 m2 g show ?thesis by simp
qed

text \<open>
  Claim C10 as stated fails for the year: two rows are routed to the year with non-empty
  values, and the year after both is not the joined value of the later row but the four
  digits found in it.
\<close>

theorem last_match_value_counterexample:
  "routes_to lib0 row_year_1999 = Some ''year'' \<and> row_td row_year_1999 \<noteq> [] \<and>
   routes_to lib0 row_year_2015 = Some ''year'' \<and> row_td row_year_2015 \<noteq> [] \<and>
   process_rows lib0 (initial_item [0x411]) [row_year_1999, row_year_2015] ''year''
     \<noteq> Some (row_td row_year_2015)"
proof -
  have "process_rows lib0 (initial_item [0x411]) [row_year_1999, row_year_2015] ''year''
          = Some [0x32, 0x30, 0x31, 0x35]"
    by (simp add: process_rows_def process_row_routes row_year_1999_route row_year_1999_td
        row_year_2015_route row_year_2015_td stored_value_def year_value_2015)
  then show ?thesis
    by (simp add: row_year_1999_route row_year_1999_td row_year_2015_route row_year_2015_td)
qed

section \<open>Pagination\<close>

text \<open>
  Claim C7. Pagination: a category page produces at most one next-page request, and it is
  the last request \<open>parse\<close> yields. When the link labelled as next page gives a non-empty
  href,
    the request follows that href; the \<open>rel=next\<close> link is followed only when the
  labelled link gives none; when neither gives one, no next-page request is produced.
\<close>

theorem pagination_at_most_one:
  "length (pagination_requests L r) \<le> 1
   \<and> (\<forall>h. sel_get (next_text_hrefs r) = Some h \<and> h \<noteq> [] \<longrightarrow>
          pagination_requests L r = [Request (urljoin L (url r) h) CB_parse])
   \<and> (\<forall>h. \<not> truthy (sel_get (next_text_hrefs r)) \<and>
          sel_get (next_rel_hrefs r) = Some h \<and> h \<noteq> [] \<longrightarrow>
          pagination_requests L r = [Request (urljoin L (url r) h) CB_parse])
   \<and> (\<not> truthy (sel_get (next_text_hrefs r)) \<and> \<not> truthy (sel_get (next_rel_hrefs r)) \<longrightarrow>
          pagination_requests L r = [])
   \<and> parse L r = subcat_requests L r @ article_requests L r @ pagination_requests L r"
  by (auto simp add: pagination_requests_def next_page_def truthy_def parse_def Let_def
      split: option.splits)

theorem pagination_at_most_one_witness:
  "parse lib0 page_category =
     [Request (wiki_base @ wiki_sep @ [0x411, 0x440, 0x430, 0x442]) CB_parse_article,
       Request href_next_b CB_parse] \<and>
   pagination_requests lib0 page_category_rel = [Request href_next_c CB_parse] \<and>
   pagination_requests lib0 page_category_last = []"
proof -
  have t: "sel_get (next_text_hrefs page_category) = Some href_next_b \<and> href_next_b \<noteq> []"
    by (simp add: sel_get_def page_category_def href_next_b_def wiki_base_def)
  have a: "article_requests lib0 page_category =
             [Request (wiki_base @ wiki_sep @ [0x411, 0x440, 0x430, 0x442]) CB_parse_article]"
    by (simp add: article_requests_def page_category_def split_wiki_def wiki_sep_def
        wiki_base_def lib0_def)
  have s: "subcat_requests lib0 page_category = []"
    by (simp add: subcat_requests_def page_category_def)
  have u: "urljoin lib0 (url page_category) href_next_b = href_next_b"
    by (simp add: lib0_def)
  from pagination_at_most_one [of lib0 page_category] t a s u
  have p1: "parse lib0 page_category =
     [Request (wiki_base @ wiki_sep @ [0x411, 0x440, 0x430, 0x442]) CB_parse_article,
       Request href_next_b CB_parse]"
    by simp
  have r: "\<not> truthy (sel_get (next_text_hrefs page_category_rel)) \<and>
           sel_get (next_rel_hrefs page_category_rel) = Some href_next_c \<and> href_next_c \<noteq> []"
    by (simp add: sel_get_def truthy_def page_category_rel_def page_category_def
        href_next_c_def wiki_base_def)
  have u2: "urljoin lib0 (url page_category_rel) href_next_c = href_next_c"
    by (simp add: lib0_def)
  from pagination_at_most_one [of lib0 page_category_rel] r u2
  have p2: "pagination_requests lib0 page_category_rel = [Request href_next_c CB_parse]"
    by simp
  have n: "\<not> truthy (sel_get (next_text_hrefs page_category_last)) \<and>
           \<not> truthy (sel_get (next_rel_hrefs page_category_last))"
    by (simp add: sel_get_def truthy_def page_category_last_def page_category_def)
  from pagination_at_most_one [of lib0 page_category_last] n
  have p3: "pagination_requests lib0 page_category_last = []" by simp
  from p1 p2 p3 show ?thesis by simp
qed

section \<open>The extracted record\<close>

lemma ne_ukazano_nonempty: "ne_ukazano \<noteq> []"
  by (simp add: ne_ukazano_def)

lemma resolve_title_nonempty: "resolve_title L r \<noteq> []"
  by (simp add: resolve_title_def Let_def ne_ukazano_nonempty)

lemma resolve_title_cases:
  "resolve_title L r =
     (if heading_title r \<noteq> [] then heading_title r
      else if url_title L r \<noteq> [] then url_title L r
      else ne_ukazano)"
  by (simp add: resolve_title_def Let_def)

lemma populated_initial: "title \<noteq> [] \<Longrightarrow> populated (initial_item title)"
  by (auto simp add: populated_def initial_item_def item_keys_def ran_def ne_ukazano_nonempty
      split: if_splits)

lemma populated_upd:
  "populated it \<Longrightarrow> k \<in> item_keys \<Longrightarrow> v \<noteq> [] \<Longrightarrow> populated (it(k \<mapsto> v))"
  by (auto simp add: populated_def ran_def split: if_splits)

lemma routes_to_key: "routes_to L row = Some k \<Longrightarrow> k \<in> item_keys"
  by (auto simp add: routes_to_def item_keys_def Let_def split: if_splits)

lemma routes_to_not_title: "routes_to L row \<noteq> Some ''title''"
  by (simp add: routes_to_def Let_def)

lemma year_value_nonempty: "td \<noteq> [] \<Longrightarrow> year_value L td \<noteq> []"
  using re_search_d4_length [of "re_digit L" td]
  by (auto simp add: year_value_def split: option.splits)

lemma stored_value_nonempty: "td \<noteq> [] \<Longrightarrow> stored_value L k td \<noteq> []"
  by (simp add: stored_value_def year_value_nonempty)

lemma populated_process_row: "populated it \<Longrightarrow> populated (process_row L it row)"
  by (auto simp add: process_row_routes populated_upd routes_to_key stored_value_nonempty
      split: option.splits)

lemma populated_process_rows: "populated it \<Longrightarrow> populated (process_rows L it rows)"
  by (induction rows rule: rev_induct)
     (simp_all add: process_rows_snoc populated_process_row, simp add: process_rows_def)

lemma process_row_title: "process_row L it row ''title'' = it ''title''"
  using routes_to_not_title [of L row]
  by (auto simp add: process_row_routes split: option.splits)

lemma process_rows_title: "process_rows L it rows ''title'' = it ''title''"
  by (induction rows rule: rev_induct)
     (simp_all add: process_rows_snoc process_row_title, simp add: process_rows_def)

lemma extract_fields_populated:
  assumes "title \<noteq> []"
  shows "\<exists>it. extract_fields L r title = Inr it \<and> populated it \<and> it ''title'' = Some title"
proof -
  let ?it = "process_rows L (initial_item title) (infobox_rows r)"
  have p: "populated ?it" using assms by (simp add: populated_initial populated_process_rows)
  then have "''year'' \<in> dom ?it" by (simp add: populated_def item_keys_def)
  then obtain y where y: "?it ''year'' = Some y" by blast
  have t: "?it ''title'' = Some title" by (simp add: process_rows_title initial_item_def)
  show ?thesis
  proof (cases "y = ne_ukazano")
    case False
    with y p t show ?thesis by (simp add: extract_fields_def getitem_def)
  next
    case True
    show ?thesis
    proof (cases "re_search_d4 (re_digit L) (first_text_year r)")
      case None
      with True y p t show ?thesis by (simp add: extract_fields_def getitem_def)
    next
      case (Some m)
      then have "m \<noteq> []" using re_search_d4_length by fastforce
      then have "populated (?it(''year'' \<mapsto> m))"
        using p by (simp add: populated_upd item_keys_def)
      with Some True y t show ?thesis by (simp add: extract_fields_def getitem_def)
    qed
  qed
qed

text \<open>
  Claim C2. Field extraction is total: for every page and URL it returns a record, never an
  error, and the record has exactly the keys title, genre, director, country and year, none
  of them bound to the empty string. The same holds for the record \<open>parse_article\<close>
  yields when it yields one.
\<close>

theorem extraction_total:
  "(\<exists>it. extract_fields L r (resolve_title L r) = Inr it \<and> populated it) \<and>
   (parse_article L r = Inr None \<or> (\<exists>it. parse_article L r = Inr (Some it) \<and> populated it))"
proof -
  from extract_fields_populated [OF resolve_title_nonempty, of L r L r]
  obtain it where "extract_fields L r (resolve_title L r) = Inr it" and "populated it"
    by blast
  then show ?thesis by (auto simp add: parse_article_def Let_def)
qed

text \<open>
  Claim C1, as amended. For every article page the classifier accepts, the title of the
  extracted record is not empty: it is the heading text when that is not empty, else the
  text derived from the URL (what follows \<open>/wiki/\<close>, underscores replaced, decoded)
  when that is not empty, and the placeholder only when both are empty.
\<close>

theorem title_resolution:
  assumes "is_film_page L r"
  shows "title_of (parse_article L r) = Some (resolve_title L r) \<and>
         resolve_title L r \<noteq> [] \<and>
         resolve_title L r =
           (if heading_title r \<noteq> [] then heading_title r
            else if url_title L r \<noteq> [] then url_title L r
            else ne_ukazano)"
proof -
  from extract_fields_populated [OF resolve_title_nonempty, of L r L r]
  obtain it where "extract_fields L r (resolve_title L r) = Inr it"
    and "it ''title'' = Some (resolve_title L r)"
    by blast
  with assms have "title_of (parse_article L r) = Some (resolve_title L r)"
    by (simp add: parse_article_def title_of_def Let_def)
  then show ?thesis using resolve_title_nonempty resolve_title_cases by blast
qed

lemma page_film_is_film: "is_film_page lib0 page_film"
  by (simp add: is_film_page_def is_film_page_run_def has_kw_def sel_get_def first_text_cls_def
      page_film_def str_eval)

lemma page_film_heading: "heading_title page_film = [0x411, 0x440, 0x430, 0x442]"
  by (simp add: heading_title_def page_film_def str_eval)

lemma page_no_heading_is_film: "is_film_page lib0 page_no_heading"
  by (simp add: is_film_page_def is_film_page_run_def has_kw_def sel_get_def first_text_cls_def
      page_no_heading_def page_film_def str_eval)

lemma page_no_heading_heading: "heading_title page_no_heading = []"
  by (simp add: heading_title_def page_no_heading_def page_film_def strip_def)

lemma page_no_heading_url:
  "url_title lib0 page_no_heading =
     [0x49, 0x6E, 0x63, 0x65, 0x70, 0x74, 0x69, 0x6F, 0x6E, 0x20, 0x28, 0x66, 0x69, 0x6C,
      0x6D, 0x29]"
  by (simp add: url_title_def split_wiki_def unquote_def page_no_heading_def page_film_def
      wiki_base_def wiki_sep_def)

theorem title_resolution_witness:
  "is_film_page lib0 page_film \<and>
   title_of (parse_article lib0 page_film) = Some [0x411, 0x440, 0x430, 0x442] \<and>
   is_film_page lib0 page_no_heading \<and>
   title_of (parse_article lib0 page_no_heading) =
     Some [0x49, 0x6E, 0x63, 0x65, 0x70, 0x74, 0x69, 0x6F, 0x6E, 0x20, 0x28, 0x66, 0x69, 0x6C,
           0x6D, 0x29]"
  using title_resolution [OF page_film_is_film] page_film_is_film page_film_heading
    title_resolution [OF page_no_heading_is_film] page_no_heading_is_film
    page_no_heading_heading page_no_heading_url
  by simp

lemma row_director_td: "row_td row_director = [0x410, 0x43B, 0x435, 0x43A, 0x441, 0x435,
  0x439, 0x20, 0x411, 0x430, 0x43B, 0x430, 0x431, 0x430, 0x43D, 0x43E, 0x432]"
  by (simp add: row_td_def row_director_def str_eval)

lemma row_director_route: "routes_to lib0 row_director = Some ''director''"
  by (simp add: routes_to_def row_th_def row_director_def str_eval)

lemma row_country_td: "row_td row_country = [0x420, 0x43E, 0x441, 0x441, 0x438, 0x44F]"
  by (simp add: row_td_def row_country_def str_eval)

lemma row_country_route: "routes_to lib0 row_country = Some ''country''"
  by (simp add: routes_to_def row_th_def row_country_def str_eval)

lemma row_year_td: "row_td row_year = [0x31, 0x39, 0x39, 0x37]"
  by (simp add: row_td_def row_year_def str_eval)

lemma row_year_route: "routes_to lib0 row_year = Some ''year''"
  by (simp add: routes_to_def row_th_def row_year_def str_eval)

lemma year_value_1997: "year_value lib0 [0x31, 0x39, 0x39, 0x37] = [0x31, 0x39, 0x39, 0x37]"
  by (simp add: year_value_def lib0_def)

lemma page_film_title: "resolve_title lib0 page_film = [0x411, 0x440, 0x430, 0x442]"
  by (simp add: resolve_title_def page_film_heading)

lemma page_film_rows:
  "process_rows lib0 (initial_item [0x411, 0x440, 0x430, 0x442]) (infobox_rows page_film) =
     [''title'' \<mapsto> [0x411, 0x440, 0x430, 0x442], ''genre'' \<mapsto> [0x434, 0x440,
       0x430, 0x43C, 0x430],
      ''director'' \<mapsto> [0x410, 0x43B, 0x435, 0x43A, 0x441, 0x435, 0x439, 0x20, 0x411,
        0x430, 0x43B, 0x430, 0x431, 0x430, 0x43D, 0x43E, 0x432],
          ''country'' \<mapsto> [0x420, 0x43E, 0x441, 0x441, 0x438, 0x44F],
            ''year'' \<mapsto> [0x31, 0x39, 0x39, 0x37]]"
  by (rule ext)
     (simp add: page_film_def process_rows_def process_row_routes initial_item_def
      row_genre_td row_genre_route row_director_td row_director_route
      row_country_td row_country_route row_year_td row_year_route
      stored_value_def year_value_1997)

lemma page_film_record:
  "parse_article lib0 page_film =
     Inr (Some [''title'' \<mapsto> [0x411, 0x440, 0x430, 0x442], ''genre'' \<mapsto> [0x434,
       0x440, 0x430, 0x43C, 0x430],
      ''director'' \<mapsto> [0x410, 0x43B, 0x435, 0x43A, 0x441, 0x435, 0x439, 0x20, 0x411,
        0x430, 0x43B, 0x430, 0x431, 0x430, 0x43D, 0x43E, 0x432],
          ''country'' \<mapsto> [0x420, 0x43E, 0x441, 0x441, 0x438, 0x44F],
            ''year'' \<mapsto> [0x31, 0x39, 0x39, 0x37]])"
  by (simp add: parse_article_def page_film_is_film page_film_title extract_fields_def
      page_film_rows getitem_def ne_ukazano_def)

theorem extraction_total_witness:
  "populated [''title'' \<mapsto> [0x411, 0x440, 0x430, 0x442], ''genre'' \<mapsto> [0x434,
    0x440, 0x430, 0x43C, 0x430],
      ''director'' \<mapsto> [0x410, 0x43B, 0x435, 0x43A, 0x441, 0x435, 0x439, 0x20, 0x411,
        0x430, 0x43B, 0x430, 0x431, 0x430, 0x43D, 0x43E, 0x432],
          ''country'' \<mapsto> [0x420, 0x43E, 0x441, 0x441, 0x438, 0x44F],
            ''year'' \<mapsto> [0x31, 0x39, 0x39, 0x37]]"
  using extraction_total [of lib0 page_film] by (simp add: page_film_record)

lemma page_no_title_is_film: "is_film_page lib0 page_no_title"
  by (simp add: is_film_page_def is_film_page_run_def has_kw_def sel_get_def first_text_cls_def
      page_no_title_def page_film_def str_eval)

lemma page_no_title_heading: "heading_title page_no_title = []"
  by (simp add: heading_title_def page_no_title_def page_film_def strip_def)

lemma page_no_title_url: "url_title lib0 page_no_title = []"
  by (simp add: url_title_def split_wiki_def unquote_def page_no_title_def page_film_def
      wiki_base_def wiki_sep_def)

text \<open>
  Claim C1 as stated fails: for an accepted page without heading text whose URL ends in
  \<open>/wiki/\<close>, the title of the record is the placeholder.
\<close>

theorem title_sentinel_counterexample:
  "is_film_page lib0 page_no_title \<and> heading_title page_no_title = [] \<and>
   title_of (parse_article lib0 page_no_title) = Some ne_ukazano"
proof -
  have "resolve_title lib0 page_no_title = ne_ukazano"
    by (simp add: resolve_title_def page_no_title_heading page_no_title_url)
  moreover
  from extract_fields_populated [OF resolve_title_nonempty,
    of lib0 page_no_title lib0 page_no_title]
  obtain it where "extract_fields lib0 page_no_title (resolve_title lib0 page_no_title) = Inr it"
    and "it ''title'' = Some (resolve_title lib0 page_no_title)"
    by blast
  ultimately have "title_of (parse_article lib0 page_no_title) = Some ne_ukazano"
    using page_no_title_is_film by (simp add: parse_article_def title_of_def Let_def)
  with page_no_title_is_film page_no_title_heading show ?thesis by simp
qed

end
